theory Spec2Isabelle
  imports Main
begin

section \<open>Data model\<close>

text \<open>
  The video-tree service of \<^verbatim>\<open>src/services/video-tree.service.ts\<close> works on a
  collection of tree documents and a collection of flat node documents.

  Modelled from the spec: the model declarations (\<^verbatim>\<open>models/video-tree\<close>,
  \<^verbatim>\<open>models/video-node\<close>) are not among the sources; the fields are those of the data
  model (3) that the service reads and writes. An ObjectId is read as the number it
  encodes (its hex string is in bijection with it, so \<^verbatim>\<open>toString\<close> and
  \<^verbatim>\<open>new Types.ObjectId\<close> are the identity here); node ids are strings. A title that
  is unset is the empty string, the one string for which \<^verbatim>\<open>!title\<close> holds. A node
  without content has no \<open>node_info\<close>. The views counter is a natural number.
\<close>

type_synonym object_id = nat

text \<open>
  \<^verbatim>\<open>new HttpError(status, message?)\<close>; a rejected aggregation is a \<open>MongoError\<close>,
  a node set that does not build is a \<open>TreeError\<close>.
\<close>

datatype build_error = NoRoot | MultipleRoots | DanglingReference | CycleDetected

datatype error = HttpError nat "string option" | MongoError string | TreeError build_error

datatype status = Draft | Public | Private

record node_info =
  label :: string
  url :: string

record video_node =
  node_id :: string
  parentId :: "string option"
  layer :: nat
  node_info :: "node_info option"
  node_creator :: object_id

datatype video_node_dto =
  VideoNodeDTO (dto_id: string) (dto_layer: nat) (dto_parentId: "string option")
    (dto_info: "node_info option") (dto_creator: object_id)
    (dto_children: "video_node_dto list")

record video_info =
  title :: string
  description :: string
  creator :: object_id
  status :: status
  isEditing :: bool

record video_data =
  views :: nat
  favorites :: "object_id list"

record video_tree =
  tree_id :: object_id
  root :: string
  info :: video_info
  data :: video_data

record video_tree_dto =
  dto_tree_id :: object_id
  dto_root :: video_node_dto
  dto_tree_info :: video_info
  dto_tree_data :: video_data

record channel =
  user_id :: object_id
  name :: string
  picture :: string
  subscribers :: "object_id list"

record history =
  hist_user :: object_id
  hist_tree :: object_id
  activeNodeId :: string
  progress :: nat
  totalProgress :: nat
  isEnded :: bool

record db =
  trees :: "video_tree list"
  nodes :: "video_node list"
  users :: "channel list"
  histories :: "history list"

section \<open>Collection primitives\<close>

text \<open>\<^verbatim>\<open>VideoTreeModel.findById\<close>: the document with that id, if any.\<close>

definition findById :: "db \<Rightarrow> object_id \<Rightarrow> video_tree option" where
  "findById d i = find (\<lambda>t. tree_id t = i) (trees d)"

text \<open>
  \<^verbatim>\<open>updateOne({ _id: id }, ...)\<close> and \<^verbatim>\<open>document.save()\<close>: the first document with
  that id is rewritten, nothing happens when there is none.
\<close>

fun updateOne :: "object_id \<Rightarrow> (video_tree \<Rightarrow> video_tree) \<Rightarrow> video_tree list \<Rightarrow> video_tree list" where
  "updateOne i f [] = []"
| "updateOne i f (t # ts) = (if tree_id t = i then f t # ts else t # updateOne i f ts)"

definition findNode :: "video_node list \<Rightarrow> string \<Rightarrow> video_node option" where
  "findNode ns i = find (\<lambda>n. node_id n = i) ns"

section \<open>Node store\<close>

text \<open>
  Modelled from the spec: \<^verbatim>\<open>services/video-node.service.ts\<close> is not among the
  sources. The spec (4.3) gives \<^verbatim>\<open>createRoot\<close>, \<^verbatim>\<open>updateByTree\<close> and
  \<^verbatim>\<open>deleteByRoot\<close>; the ids of the nodes reachable from a root are gathered by
  following the parent references downwards from it.
\<close>

function descendantIds :: "video_node list \<Rightarrow> string list \<Rightarrow> string list" where
  "descendantIds ns [] = []"
| "descendantIds ns (i # todo) =
     i # descendantIds (filter (\<lambda>n. parentId n \<noteq> Some i) ns)
           (map node_id (filter (\<lambda>n. parentId n = Some i) ns) @ todo)"
  by pat_completeness auto
termination
proof (relation "measures [\<lambda>(ns, todo). length ns, \<lambda>(ns, todo). length todo]", goal_cases)
  case 1
  show ?case by simp
next
  case (2 ns i todo)
  show ?case
  proof (cases "\<exists>n\<in>set ns. parentId n = Some i")
    case True
    then obtain n where "n \<in> set ns" and "\<not> parentId n \<noteq> Some i"
      by auto
    then have "length (filter (\<lambda>n. parentId n \<noteq> Some i) ns) < length ns"
      by (rule length_filter_less)
    then show ?thesis by simp
  next
    case False
    then have "filter (\<lambda>n. parentId n = Some i) ns = []"
      and "filter (\<lambda>n. parentId n \<noteq> Some i) ns = ns"
      by (auto simp: filter_empty_conv filter_id_conv)
    then show ?thesis by simp
  qed
qed

text \<open>
  Modelled from the spec: the stored nodes of the tree under a root (the node store's
  lookup is not among the sources): the root and every node reachable from it.
\<close>

definition findByRoot :: "video_node list \<Rightarrow> string \<Rightarrow> video_node list" where
  "findByRoot ns rootId = filter (\<lambda>n. node_id n \<in> set (descendantIds ns [rootId])) ns"

text \<open>
  Modelled from the spec: \<^verbatim>\<open>createRoot(ownerId)\<close> persists a layer-0 node with null
  parent and no content, owned by \<open>ownerId\<close>. The fresh id comes from the caller.
\<close>

definition createRoot :: "video_node list \<Rightarrow> string \<Rightarrow> object_id \<Rightarrow> video_node \<times> video_node list" where
  "createRoot ns newId ownerId =
     (let r = \<lparr>node_id = newId, parentId = None, layer = 0, node_info = None,
                node_creator = ownerId\<rparr>
      in (r, ns @ [r]))"

text \<open>
  Modelled from the spec: flattening a nested tree gives the flat node list with
  \<open>parentId\<close> and \<open>layer\<close> taken from each node's position (4.1).
\<close>

fun traverseNodes :: "string option \<Rightarrow> nat \<Rightarrow> video_node_dto \<Rightarrow> video_node list" where
  "traverseNodes p l (VideoNodeDTO i _ _ nf c ch) =
     \<lparr>node_id = i, parentId = p, layer = l, node_info = nf, node_creator = c\<rparr>
       # concat (map (traverseNodes (Some i) (Suc l)) ch)"

text \<open>
  Modelled from the spec: \<^verbatim>\<open>updateByTree(nestedTree, editorId)\<close> fails with not-found
  when no node is stored for the submitted root, with forbidden when a stored node of
  that tree is owned by somebody else; otherwise stored nodes absent from the submission
  are deleted, those present are updated in place, and new ones are inserted for the
  editor.
\<close>

definition updateByTree :: "video_node list \<Rightarrow> video_tree_dto \<Rightarrow> object_id \<Rightarrow> error + video_node list" where
  "updateByTree ns newTree userId =
     (let newNodes = traverseNodes None 0 (dto_root newTree);
          prevNodes = findByRoot ns (dto_id (dto_root newTree));
          prevIds = map node_id prevNodes
      in if prevNodes = [] then Inl (HttpError 404 None)
         else if \<exists>n\<in>set prevNodes. node_creator n \<noteq> userId then Inl (HttpError 403 None)
         else Inr (concat (map (\<lambda>n.
                     if node_id n \<in> set prevIds
                     then (case findNode newNodes (node_id n) of
                             None \<Rightarrow> []
                           | Some m \<Rightarrow> [n\<lparr>parentId := parentId m, layer := layer m,
                                          node_info := node_info m\<rparr>])
                     else [n]) ns)
                   @ map (\<lambda>m. m\<lparr>node_creator := userId\<rparr>)
                       (filter (\<lambda>m. node_id m \<notin> set prevIds) newNodes)))"

text \<open>
  Modelled from the spec: \<^verbatim>\<open>deleteByRoot(rootId, ownerId)\<close> deletes every node reachable
  from the root, and fails with forbidden for a non-owner.
\<close>

definition deleteByRoot :: "video_node list \<Rightarrow> string \<Rightarrow> object_id \<Rightarrow> error + video_node list" where
  "deleteByRoot ns rootId userId =
     (if \<exists>n\<in>set (findByRoot ns rootId). node_creator n \<noteq> userId
      then Inl (HttpError 403 None)
      else Inr (filter (\<lambda>n. node_id n \<notin> set (descendantIds ns [rootId])) ns))"

section \<open>Tree utilities\<close>

text \<open>
  Modelled from the spec: \<^verbatim>\<open>util/tree.ts\<close> is not among the sources.
  \<^verbatim>\<open>validateNodes(root, 'info')\<close> is true when some node of the nested tree has no
  content (4.2).
\<close>

fun validateNodes :: "video_node_dto \<Rightarrow> bool" where
  "validateNodes (VideoNodeDTO _ _ _ nf _ ch) = (nf = None \<or> (\<exists>c\<in>set ch. validateNodes c))"

text \<open>
  Modelled from the spec: the descent of \<^verbatim>\<open>buildTree\<close> from a node, attaching to each
  node the supplied nodes that name it as parent, in the order supplied. The first
  argument bounds the depth; the number of supplied nodes is enough for any tree.
\<close>

fun attachChildren :: "nat \<Rightarrow> video_node list \<Rightarrow> video_node \<Rightarrow> video_node_dto" where
  "attachChildren 0 ns n =
     VideoNodeDTO (node_id n) (layer n) (parentId n) (node_info n) (node_creator n) []"
| "attachChildren (Suc k) ns n =
     VideoNodeDTO (node_id n) (layer n) (parentId n) (node_info n) (node_creator n)
       (map (attachChildren k ns) (filter (\<lambda>c. parentId c = Some (node_id n)) ns))"

text \<open>Modelled from the spec: the number of nodes that \<^verbatim>\<open>buildTree\<close> has placed.\<close>

fun countNodes :: "video_node_dto \<Rightarrow> nat" where
  "countNodes (VideoNodeDTO _ _ _ _ _ ch) = Suc (sum_list (map countNodes ch))"

text \<open>
  Modelled from the spec: \<^verbatim>\<open>buildTree\<close> nests a flat node list under its single
  root (4.1). It fails when there is no root, more than one, a parent reference that
  resolves to no supplied node, or a node that the descent from the root never places
  (with one root and no dangling reference, such a node lies on a cycle).
\<close>

definition buildTree :: "video_node list \<Rightarrow> error + video_node_dto" where
  "buildTree ns =
     (case filter (\<lambda>n. parentId n = None) ns of
        [] \<Rightarrow> Inl (TreeError NoRoot)
      | [r] \<Rightarrow>
          if \<exists>n\<in>set ns. (case parentId n of None \<Rightarrow> False
                            | Some p \<Rightarrow> p \<notin> node_id ` set ns)
          then Inl (TreeError DanglingReference)
          else (let t = attachChildren (length ns) ns r
                in if countNodes t = length ns then Inr t else Inl (TreeError CycleDetected))
      | _ \<Rightarrow> Inl (TreeError MultipleRoots))"


text \<open>
  Modelled from the spec: the node store's \<^verbatim>\<open>deleteByCreator(ownerId)\<close> removes every
  node owned by that identity (4.3).
\<close>

definition deleteNodesByCreator :: "video_node list \<Rightarrow> object_id \<Rightarrow> video_node list" where
  "deleteNodesByCreator ns userId = filter (\<lambda>n. node_creator n \<noteq> userId) ns"

section \<open>Retrieval pipeline\<close>

text \<open>
  Modelled from the spec: the stage builders under \<^verbatim>\<open>services/pipelines/\<close> and the
  declaration of the client projection are not among the sources. Each stage attaches
  data to a document and passes every document on (4.5): the root node or the full node
  list, the creator's display identity and subscriber count, the viewer's favorite flag
  and the viewer's history record.
\<close>

record creator_info =
  ci_name :: string
  ci_picture :: string
  ci_subscribers :: nat

record video_tree_client =
  client_id :: object_id
  client_root :: "video_node_dto option"
  client_info :: video_info
  client_data :: video_data
  creatorInfo :: "creator_info option"
  isFavorite :: bool
  client_history :: "history option"

text \<open>
  Modelled from the spec: \<^verbatim>\<open>allNodesPipe\<close> attaches the full node set of the tree
  (4.5 a); the model keeps the node list that the service then hands to the builder.
\<close>

definition allNodesPipe :: "db \<Rightarrow> video_tree \<Rightarrow> video_node list" where
  "allNodesPipe d t = findByRoot (nodes d) (root t)"

text \<open>Modelled from the spec: \<^verbatim>\<open>rootNodePipe\<close> attaches the root node only (4.5 b).\<close>

definition rootNodePipe :: "db \<Rightarrow> video_tree \<Rightarrow> video_node_dto option" where
  "rootNodePipe d t = map_option (attachChildren 0 []) (findNode (nodes d) (root t))"

text \<open>
  Modelled from the spec: \<^verbatim>\<open>creatorInfoPipe\<close> attaches the creator's name, picture
  and subscriber count (4.5 c).
\<close>

definition creatorInfoPipe :: "db \<Rightarrow> video_tree \<Rightarrow> creator_info option" where
  "creatorInfoPipe d t =
     map_option (\<lambda>u. \<lparr>ci_name = name u, ci_picture = picture u,
                       ci_subscribers = length (subscribers u)\<rparr>)
       (find (\<lambda>u. user_id u = creator (info t)) (users d))"

text \<open>
  Modelled from the spec: \<^verbatim>\<open>favoritePipe(userId)\<close> attaches the membership of the viewer
  in the favorites set (4.5 d).
\<close>

definition favoritePipe :: "object_id option \<Rightarrow> video_tree \<Rightarrow> bool" where
  "favoritePipe userId t = (case userId of None \<Rightarrow> False | Some u \<Rightarrow> u \<in> set (favorites (data t)))"

text \<open>
  Modelled from the spec: \<^verbatim>\<open>historyPipe(userId, historyData)\<close> attaches the viewer's
  history record for the tree, if any and if asked for (4.5 e).
\<close>

definition historyPipe :: "db \<Rightarrow> object_id option \<Rightarrow> bool \<Rightarrow> video_tree \<Rightarrow> history option" where
  "historyPipe d userId historyData t =
     (case userId of
        None \<Rightarrow> None
      | Some u \<Rightarrow> if historyData
                  then find (\<lambda>h. hist_user h = u \<and> hist_tree h = tree_id t) (histories d)
                  else None)"

text \<open>
  A \<^verbatim>\<open>$match\<close> document is a finite map from field paths to conditions, all of which a
  document must meet. The paths and operators are those the service writes. Text search
  and its ranking belong to the backing store, and so does the \<^verbatim>\<open>updatedAt\<close> timestamp:
  they are parameters.
\<close>

datatype field = F_id | F_info_creator | F_info_status | F_info_isEditing | F_text | F_expr

datatype cond =
    Eq_oid object_id
  | Eq_status status
  | Eq_bool bool
  | In_oids "object_id list"
  | Search string
  | In_favorites object_id

type_synonym match_doc = "(field \<times> cond) list"

record backing_store =
  textMatch :: "string \<Rightarrow> video_tree \<Rightarrow> bool"
  textScore :: "string \<Rightarrow> video_tree \<Rightarrow> int"
  updatedAt :: "video_tree \<Rightarrow> int"

fun holds :: "backing_store \<Rightarrow> field \<Rightarrow> cond \<Rightarrow> video_tree \<Rightarrow> bool" where
  "holds bs F_id (Eq_oid i) t = (tree_id t = i)"
| "holds bs F_id (In_oids is) t = (tree_id t \<in> set is)"
| "holds bs F_info_creator (Eq_oid i) t = (creator (info t) = i)"
| "holds bs F_info_status (Eq_status s) t = (status (info t) = s)"
| "holds bs F_info_isEditing (Eq_bool b) t = (isEditing (info t) = b)"
| "holds bs F_text (Search q) t = textMatch bs q t"
| "holds bs F_expr (In_favorites i) t = (i \<in> set (favorites (data t)))"
| "holds bs _ _ t = False"

definition matches :: "backing_store \<Rightarrow> match_doc \<Rightarrow> video_tree \<Rightarrow> bool" where
  "matches bs m t = list_all (\<lambda>(k, c). holds bs k c t) m"

text \<open>Object spread \<^verbatim>\<open>{ ...base, ...over }\<close>: a key of \<open>over\<close> replaces the same key of \<open>base\<close>.\<close>

definition spread :: "match_doc \<Rightarrow> match_doc \<Rightarrow> match_doc" where
  "spread base over = filter (\<lambda>(k, c). k \<notin> fst ` set over) base @ over"

text \<open>\<^verbatim>\<open>{ $sort: { key: -1 } }\<close>: descending by the key.\<close>

definition sortStage :: "(video_tree \<Rightarrow> int) \<Rightarrow> video_tree list \<Rightarrow> video_tree list" where
  "sortStage key ts = sort_key (\<lambda>t. - key t) ts"


section \<open>Tree store: \<^verbatim>\<open>video-tree.service.ts\<close>\<close>

text \<open>
  Modelled from the spec: the \<^verbatim>\<open>VideoTreeModel\<close> schema is not among the sources. A
  tree is created with no title, \<open>isEditing\<close> true, no views and no favorites (3, 8);
  the initial status is a parameter.
\<close>

definition newVideoTree :: "status \<Rightarrow> object_id \<Rightarrow> string \<Rightarrow> object_id \<Rightarrow> video_tree" where
  "newVideoTree st newId rootId userId =
     \<lparr>tree_id = newId, root = rootId,
      info = \<lparr>title = [], description = [], creator = userId, status = st, isEditing = True\<rparr>,
      data = \<lparr>views = 0, favorites = []\<rparr>\<rparr>"

text \<open>
  \<^verbatim>\<open>create\<close> (lines 16-47). The ids that the store generates for the new root node
  and the new tree are arguments.
\<close>

definition create :: "status \<Rightarrow> db \<Rightarrow> object_id \<Rightarrow> string \<Rightarrow> object_id \<Rightarrow> video_tree_dto \<times> db" where
  "create st d newId newRootId userId =
     (let (r, ns) = createRoot (nodes d) newRootId userId;
          videoTree = newVideoTree st newId (node_id r) userId;
          videoTreeDTO =
            \<lparr>dto_tree_id = tree_id videoTree,
             dto_root = VideoNodeDTO (node_id r) (layer r) (parentId r) (node_info r)
                          (node_creator r) [],
             dto_tree_info = info videoTree,
             dto_tree_data = data videoTree\<rparr>
      in (videoTreeDTO, d\<lparr>trees := trees d @ [videoTree], nodes := ns\<rparr>))"

text \<open>
  \<^verbatim>\<open>update\<close> (lines 49-78), here \<open>update_tree\<close>: not found, then the comparison of the submitted creator
  with the stored one, then the node store, then the new info block with the stored
  creator, \<open>isEditing\<close> forced when the title is unset or a node lacks content, and
  the save.
\<close>

definition update_tree :: "db \<Rightarrow> object_id \<Rightarrow> video_tree_dto \<Rightarrow> object_id \<Rightarrow> error + video_tree \<times> db" where
  "update_tree d i uploadTree userId =
     (case findById d i of
        None \<Rightarrow> Inl (HttpError 404 (Some ''Video not found''))
      | Some videoTree \<Rightarrow>
          if creator (dto_tree_info uploadTree) \<noteq> creator (info videoTree)
          then Inl (HttpError 403 None)
          else (case updateByTree (nodes d) uploadTree userId of
                  Inl e \<Rightarrow> Inl e
                | Inr ns \<Rightarrow>
                    let info1 = (dto_tree_info uploadTree)\<lparr>creator := creator (info videoTree)\<rparr>;
                        info2 = (if title info1 = [] \<or> validateNodes (dto_root uploadTree)
                                 then info1\<lparr>isEditing := True\<rparr> else info1);
                        saved = videoTree\<lparr>info := info2\<rparr>
                    in Inr (saved, d\<lparr>trees := updateOne i (\<lambda>_. saved) (trees d), nodes := ns\<rparr>)))"

text \<open>
  \<^verbatim>\<open>remove\<close> (lines 80-97), here \<open>remove_tree\<close>. \<^verbatim>\<open>video.remove()\<close> deletes by \<^verbatim>\<open>_id\<close>, which is
  unique in a collection.
\<close>

definition remove_tree :: "db \<Rightarrow> object_id \<Rightarrow> object_id \<Rightarrow> error + video_tree \<times> db" where
  "remove_tree d i userId =
     (case findById d i of
        None \<Rightarrow> Inl (HttpError 404 (Some ''Video not found''))
      | Some video \<Rightarrow>
          if creator (info video) \<noteq> userId
          then Inl (HttpError 403 (Some ''Not authorized to remove video''))
          else (case deleteByRoot (nodes d) (root video) userId of
                  Inl e \<Rightarrow> Inl e
                | Inr ns \<Rightarrow>
                    Inr (video, d\<lparr>trees := filter (\<lambda>t. tree_id t \<noteq> i) (trees d), nodes := ns\<rparr>)))"

text \<open>
  \<^verbatim>\<open>findOne\<close>, \<^verbatim>\<open>findClientOne\<close> and \<^verbatim>\<open>findOneByCreator\<close> (lines 105-166): the
  aggregation result is empty when no tree has the id; \<open>allNodesPipe d t\<close> is the
  list \<^verbatim>\<open>[root, ...root.children]\<close> handed to \<^verbatim>\<open>buildTree\<close>; the visibility check
  of \<^verbatim>\<open>findClientOne\<close> comes last. A request without viewer has \<open>userId = None\<close>.
\<close>

definition findOne :: "db \<Rightarrow> object_id \<Rightarrow> error + video_tree_dto" where
  "findOne d i =
     (case filter (\<lambda>t. tree_id t = i) (trees d) of
        [] \<Rightarrow> Inl (HttpError 404 (Some ''Video not found''))
      | t # _ \<Rightarrow>
          (case buildTree (allNodesPipe d t) of
             Inl e \<Rightarrow> Inl e
           | Inr r \<Rightarrow> Inr \<lparr>dto_tree_id = tree_id t, dto_root = r, dto_tree_info = info t,
                            dto_tree_data = data t\<rparr>))"

definition findClientOne :: "db \<Rightarrow> object_id \<Rightarrow> object_id option \<Rightarrow> error + video_tree_client" where
  "findClientOne d i userId =
     (case filter (\<lambda>t. tree_id t = i) (trees d) of
        [] \<Rightarrow> Inl (HttpError 404 (Some ''Video not found''))
      | t # _ \<Rightarrow>
          (case buildTree (allNodesPipe d t) of
             Inl e \<Rightarrow> Inl e
           | Inr r \<Rightarrow>
               if status (info t) = Private \<and> Some (creator (info t)) \<noteq> userId
               then Inl (HttpError 403 (Some ''Not authorized to video''))
               else Inr \<lparr>client_id = tree_id t, client_root = Some r, client_info = info t,
                         client_data = data t, creatorInfo = creatorInfoPipe d t,
                         isFavorite = favoritePipe userId t,
                         client_history = historyPipe d userId True t\<rparr>))"

definition findOneByCreator :: "db \<Rightarrow> object_id \<Rightarrow> object_id \<Rightarrow> error + video_tree_dto" where
  "findOneByCreator d i userId =
     (case findOne d i of
        Inl e \<Rightarrow> Inl e
      | Inr video \<Rightarrow>
          if creator (dto_tree_info video) \<noteq> userId
          then Inl (HttpError 403 (Some ''Not authorized to this video''))
          else Inr video)"

text \<open>
  \<^verbatim>\<open>find\<close> (lines 168-209), here \<open>find_trees\<close>, with \<^verbatim>\<open>+page\<close> and \<^verbatim>\<open>+max\<close> read as integers: the
  \<^verbatim>\<open>$facet\<close> stage yields one document holding the page and the list
  \<open>totalCount\<close>, which \<^verbatim>\<open>$count\<close> leaves empty when nothing matched; \<^verbatim>\<open>$unwind\<close> then
  yields one document per element of \<open>totalCount\<close>. The store rejects a negative
  \<^verbatim>\<open>$skip\<close> and a \<^verbatim>\<open>$limit\<close> that is not positive. Omitted arguments are \<open>None\<close>.
\<close>

record find_result =
  videos :: "video_tree_client list"
  count :: nat

text \<open>
  The stages of the \<open>videos\<close> branch after \<^verbatim>\<open>$limit\<close>, applied to one document.
\<close>

definition clientPipes :: "db \<Rightarrow> object_id option \<Rightarrow> bool \<Rightarrow> video_tree \<Rightarrow> video_tree_client" where
  "clientPipes d userId historyData t =
     \<lparr>client_id = tree_id t, client_root = rootNodePipe d t, client_info = info t,
      client_data = data t, creatorInfo = creatorInfoPipe d t,
      isFavorite = favoritePipe userId t,
      client_history = historyPipe d userId historyData t\<rparr>"

definition find_trees ::
  "backing_store \<Rightarrow> db \<Rightarrow> match_doc option \<Rightarrow> (video_tree \<Rightarrow> int) option \<Rightarrow> int option \<Rightarrow> int option
     \<Rightarrow> object_id option \<Rightarrow> bool option \<Rightarrow> error + find_result" where
  "find_trees bs d match srt page mx userId historyData =
     (let m = (case match of None \<Rightarrow> [] | Some x \<Rightarrow> x);
          p = (case page of None \<Rightarrow> 1 | Some x \<Rightarrow> x);
          l = (case mx of None \<Rightarrow> 12 | Some x \<Rightarrow> x);
          h = (case historyData of None \<Rightarrow> True | Some x \<Rightarrow> x);
          key = (case srt of None \<Rightarrow> (\<lambda>t. int (tree_id t)) | Some k \<Rightarrow> k)
      in if l * (p - 1) < 0 then Inl (MongoError ''$skip'')
         else if l \<le> 0 then Inl (MongoError ''$limit'')
         else
           (let matched = filter (matches bs m) (trees d);
                page_videos = map (clientPipes d userId h)
                                (take (nat l) (drop (nat (l * (p - 1))) (sortStage key matched)));
                totalCount = (if matched = [] then [] else [length matched]);
                result = map (\<lambda>c. (page_videos, c)) totalCount
            in Inr \<lparr>videos = (case result of [] \<Rightarrow> [] | r # _ \<Rightarrow> fst r),
                     count = (case result of [] \<Rightarrow> 0 | r # _ \<Rightarrow> snd r)\<rparr>))"

text \<open>The listings built on \<^verbatim>\<open>find\<close> (lines 211-306).\<close>

definition findByCreator :: "backing_store \<Rightarrow> db \<Rightarrow> object_id \<Rightarrow> int \<Rightarrow> int \<Rightarrow> error + find_result" where
  "findByCreator bs d creatorId page mx =
     find_trees bs d (Some [(F_info_creator, Eq_oid creatorId)]) None (Some page) (Some mx)
       None (Some False)"

definition findClient ::
  "backing_store \<Rightarrow> db \<Rightarrow> match_doc option \<Rightarrow> (video_tree \<Rightarrow> int) option \<Rightarrow> int \<Rightarrow> int
     \<Rightarrow> object_id option \<Rightarrow> error + find_result" where
  "findClient bs d match srt page mx userId =
     find_trees bs d
       (Some (spread [(F_info_status, Eq_status Public), (F_info_isEditing, Eq_bool False)]
                (case match of None \<Rightarrow> [] | Some x \<Rightarrow> x)))
       srt (Some page) (Some mx) userId None"

text \<open>
  The wrappers of \<^verbatim>\<open>findClient\<close> that take a \<^verbatim>\<open>params\<close> object spread it last into
  the argument of \<^verbatim>\<open>findClient\<close> (lines 254-257, 266-270, 279-282, 301-305), so every
  key that \<^verbatim>\<open>params\<close> carries and \<^verbatim>\<open>findClient\<close> reads (\<^verbatim>\<open>match\<close>, \<^verbatim>\<open>sort\<close>,
  \<^verbatim>\<open>page\<close>, \<^verbatim>\<open>max\<close>, \<^verbatim>\<open>userId\<close>) replaces the wrapper's own. A key of an object is
  absent (\<open>None\<close>), present and undefined (\<open>Some None\<close>), or present with a value.
  \<^verbatim>\<open>page\<close> and \<^verbatim>\<open>max\<close> are required by the declared types of the wrappers.
\<close>

record list_params =
  p_page :: int
  p_max :: int
  p_userId :: "object_id option option"
  p_match :: "match_doc option option"
  p_sort :: "(video_tree \<Rightarrow> int) option option"

record keyword_params = list_params +
  search :: string

record channel_params = list_params +
  channelId :: object_id

text \<open>The value of a key in \<^verbatim>\<open>{ key: own, ...params }\<close>.\<close>

definition spreadKey :: "'a option \<Rightarrow> 'a option option \<Rightarrow> 'a option" where
  "spreadKey own carried = (case carried of None \<Rightarrow> own | Some v \<Rightarrow> v)"

definition findClientByFeatured :: "backing_store \<Rightarrow> db \<Rightarrow> list_params \<Rightarrow> error + find_result" where
  "findClientByFeatured bs d params =
     findClient bs d (spreadKey None (p_match params))
       (spreadKey (Some (updatedAt bs)) (p_sort params))
       (p_page params) (p_max params) (spreadKey None (p_userId params))"

definition findClientByKeyword :: "backing_store \<Rightarrow> db \<Rightarrow> keyword_params \<Rightarrow> error + find_result" where
  "findClientByKeyword bs d params =
     findClient bs d (spreadKey (Some [(F_text, Search (search params))]) (p_match params))
       (spreadKey (Some (textScore bs (search params))) (p_sort params))
       (p_page params) (p_max params) (spreadKey None (p_userId params))"

definition findClientByChannel :: "backing_store \<Rightarrow> db \<Rightarrow> channel_params \<Rightarrow> error + find_result" where
  "findClientByChannel bs d params =
     findClient bs d (spreadKey (Some [(F_info_creator, Eq_oid (channelId params))]) (p_match params))
       (spreadKey None (p_sort params))
       (p_page params) (p_max params) (spreadKey None (p_userId params))"

text \<open>
  \<^verbatim>\<open>findClientByIds\<close> (lines 285-295) reads \<^verbatim>\<open>params.ids\<close> and \<^verbatim>\<open>params.userId\<close> one
  by one and spreads nothing.
\<close>

definition findClientByIds ::
  "backing_store \<Rightarrow> db \<Rightarrow> object_id list \<Rightarrow> object_id option \<Rightarrow> error + find_result" where
  "findClientByIds bs d ids userId =
     findClient bs d (Some [(F_id, In_oids ids)]) None 1 (int (length ids)) userId"

definition findClientByFavorites ::
  "backing_store \<Rightarrow> db \<Rightarrow> object_id \<Rightarrow> list_params \<Rightarrow> error + find_result" where
  "findClientByFavorites bs d i params =
     findClient bs d (spreadKey (Some [(F_expr, In_favorites i)]) (p_match params))
       (spreadKey None (p_sort params))
       (p_page params) (p_max params) (spreadKey (Some i) (p_userId params))"

text \<open>
  \<^verbatim>\<open>updateFavorites\<close>, \<^verbatim>\<open>incrementViews\<close> and \<^verbatim>\<open>deleteByCreator\<close> (lines 308-335).
  \<^verbatim>\<open>$setDifference\<close> gives the elements of the first array that are not in the second,
  each once; \<^verbatim>\<open>$concatArrays\<close> appends.
\<close>

definition toggleFavorite :: "object_id \<Rightarrow> object_id list \<Rightarrow> object_id list" where
  "toggleFavorite u favs = (if u \<in> set favs then remdups (removeAll u favs) else favs @ [u])"

definition updateFavorites :: "db \<Rightarrow> object_id \<Rightarrow> object_id \<Rightarrow> db" where
  "updateFavorites d i userId =
     d\<lparr>trees := updateOne i
         (\<lambda>t. t\<lparr>data := (data t)\<lparr>favorites := toggleFavorite userId (favorites (data t))\<rparr>\<rparr>)
         (trees d)\<rparr>"

definition incrementViews :: "db \<Rightarrow> object_id \<Rightarrow> db" where
  "incrementViews d i =
     d\<lparr>trees := updateOne i (\<lambda>t. t\<lparr>data := (data t)\<lparr>views := views (data t) + 1\<rparr>\<rparr>) (trees d)\<rparr>"

definition deleteByCreator :: "db \<Rightarrow> object_id \<Rightarrow> db" where
  "deleteByCreator d userId =
     d\<lparr>trees := filter (\<lambda>t. creator (info t) \<noteq> userId) (trees d),
       nodes := deleteNodesByCreator (nodes d) userId\<rparr>"

section \<open>The node set of a tree\<close>

text \<open>
  The node set of a tree, independently of how the store gathers it: the root, and every
  stored node whose parent is in the set.
\<close>

inductive reaches :: "video_node list \<Rightarrow> string \<Rightarrow> string \<Rightarrow> bool" for ns r where
  start: "reaches ns r r"
| step: "reaches ns r p \<Longrightarrow> n \<in> set ns \<Longrightarrow> parentId n = Some p \<Longrightarrow> reaches ns r (node_id n)"

section \<open>Sample data\<close>

text \<open>
  Two creators (1 and 2), each with one tree: a private one with a root and one child,
  and a public one with a root only. Every node has content.
\<close>

definition plainStore :: backing_store where
  "plainStore = \<lparr>textMatch = (\<lambda>q t. False), textScore = (\<lambda>q t. 0), updatedAt = (\<lambda>t. 0)\<rparr>"

definition clip :: node_info where
  "clip = \<lparr>label = ''intro'', url = ''intro.mp4''\<rparr>"

definition aliceRoot :: video_node where
  "aliceRoot = \<lparr>node_id = ''a0'', parentId = None, layer = 0, node_info = Some clip, node_creator = 1\<rparr>"

definition aliceChild :: video_node where
  "aliceChild = \<lparr>node_id = ''a1'', parentId = Some ''a0'', layer = 1, node_info = Some clip, node_creator = 1\<rparr>"

definition bobRoot :: video_node where
  "bobRoot = \<lparr>node_id = ''b0'', parentId = None, layer = 0, node_info = Some clip, node_creator = 2\<rparr>"

definition aliceTree :: video_tree where
  "aliceTree = \<lparr>tree_id = 10, root = ''a0'',
      info = \<lparr>title = ''Alice'', description = [], creator = 1, status = Private, isEditing = False\<rparr>,
      data = \<lparr>views = 3, favorites = [2]\<rparr>\<rparr>"

definition bobTree :: video_tree where
  "bobTree = \<lparr>tree_id = 20, root = ''b0'',
      info = \<lparr>title = ''Bob'', description = [], creator = 2, status = Public, isEditing = False\<rparr>,
      data = \<lparr>views = 0, favorites = []\<rparr>\<rparr>"

definition sampleDb :: db where
  "sampleDb = \<lparr>trees = [aliceTree, bobTree], nodes = [aliceRoot, aliceChild, bobRoot],
      users = [], histories = []\<rparr>"

definition aliceNested :: video_node_dto where
  "aliceNested = VideoNodeDTO ''a0'' 0 None (Some clip) 1
                   [VideoNodeDTO ''a1'' 1 (Some ''a0'') (Some clip) 1 []]"

definition bobUpload :: video_tree_dto where
  "bobUpload = \<lparr>dto_tree_id = 10,
      dto_root = VideoNodeDTO ''b0'' 0 None (Some clip) 2 [],
      dto_tree_info = \<lparr>title = ''Taken'', description = [], creator = 1, status = Public,
                       isEditing = False\<rparr>,
      dto_tree_data = \<lparr>views = 0, favorites = []\<rparr>\<rparr>"

definition aliceUpload :: video_tree_dto where
  "aliceUpload = \<lparr>dto_tree_id = 10, dto_root = aliceNested,
      dto_tree_info = \<lparr>title = ''Alice'', description = [], creator = 1, status = Private,
                       isEditing = True\<rparr>,
      dto_tree_data = \<lparr>views = 3, favorites = [2]\<rparr>\<rparr>"

definition firstPage :: list_params where
  "firstPage = \<lparr>p_page = 1, p_max = 10, p_userId = None, p_match = None, p_sort = None\<rparr>"

definition channelOf :: "object_id \<Rightarrow> channel_params" where
  "channelOf c = \<lparr>p_page = 1, p_max = 10, p_userId = None, p_match = None, p_sort = None,
      channelId = c\<rparr>"

definition manyTrees :: db where
  "manyTrees = \<lparr>trees = map (\<lambda>k. newVideoTree Public k ''r'' 1) [0..<25], nodes = [],
      users = [], histories = []\<rparr>"

lemmas sample_defs = sampleDb_def aliceTree_def bobTree_def aliceRoot_def aliceChild_def bobRoot_def
  clip_def aliceNested_def bobUpload_def aliceUpload_def firstPage_def

section \<open>Collections\<close>

lemma find_updateOne:
  assumes "\<And>t. tree_id t = i \<Longrightarrow> tree_id (f t) = i"
  shows "find (\<lambda>t. tree_id t = j) (updateOne i f ts) =
         (if j = i then map_option f (find (\<lambda>t. tree_id t = i) ts)
          else find (\<lambda>t. tree_id t = j) ts)"
  using assms by (induction ts) auto

lemma updateOne_split:
  assumes "find (\<lambda>t. tree_id t = i) ts = Some t"
  shows "\<exists>ts1 ts2. ts = ts1 @ t # ts2 \<and> (\<forall>x\<in>set ts1. tree_id x \<noteq> i)
           \<and> updateOne i f ts = ts1 @ f t # ts2"
  using assms
proof (induction ts)
  case Nil
  then show ?case by simp
next
  case (Cons a ts)
  show ?case
  proof (cases "tree_id a = i")
    case True
    with Cons.prems have "a = t" by simp
    with True show ?thesis by (intro exI[of _ "[]"] exI[of _ ts]) simp
  next
    case False
    with Cons.prems have "find (\<lambda>t. tree_id t = i) ts = Some t" by simp
    from Cons.IH[OF this] obtain ts1 ts2 where
      "ts = ts1 @ t # ts2" "\<forall>x\<in>set ts1. tree_id x \<noteq> i" "updateOne i f ts = ts1 @ f t # ts2"
      by blast
    with False show ?thesis
      by (intro exI[of _ "a # ts1"] exI[of _ ts2]) simp
  qed
qed

lemma find_filter_hd: "find P xs = Some t \<Longrightarrow> \<exists>rest. filter P xs = t # rest"
  by (induction xs) (auto split: if_splits)

lemma find_Some_id: "find (\<lambda>t. tree_id t = i) ts = Some t \<Longrightarrow> tree_id t = i"
  by (auto simp: find_Some_iff)

lemma set_toggleFavorite:
  "set (toggleFavorite u favs) = (if u \<in> set favs then set favs - {u} else insert u (set favs))"
  by (auto simp: toggleFavorite_def)

lemma set_toggleFavorite_twice: "set (toggleFavorite u (toggleFavorite u favs)) = set favs"
  by (auto simp: set_toggleFavorite)

lemma update_tree_guard:
  "(findById d i = None
      \<longrightarrow> update_tree d i uploadTree userId = Inl (HttpError 404 (Some ''Video not found'')))
   \<and> (\<forall>t. findById d i = Some t \<and> creator (dto_tree_info uploadTree) \<noteq> creator (info t)
        \<longrightarrow> update_tree d i uploadTree userId = Inl (HttpError 403 None))"
  by (simp add: update_tree_def)

section \<open>Updating a tree\<close>

text \<open>
  C1: update by an identity that is not the tree's creator should fail with forbidden
  and leave the stored tree and its nodes unchanged. The guard of \<^verbatim>\<open>update\<close>
  (line 60) compares the creator carried in the submitted tree with the stored creator;
  the caller's identity only reaches the node store. Here identity 2 submits, for tree
  10 of creator 1, a tree that names creator 1 and is rooted at identity 2's own root
  node: the call succeeds, and the stored title and status of tree 10 are replaced.
  (\<^verbatim>\<open>remove\<close>, line 90, compares the stored creator with the caller.)
\<close>

theorem update_tree_other_identity:
  "update_tree sampleDb 10 bobUpload 2 =
     Inr (aliceTree\<lparr>info := \<lparr>title = ''Taken'', description = [], creator = 1, status = Public,
                              isEditing = False\<rparr>\<rparr>,
          sampleDb\<lparr>trees := [aliceTree\<lparr>info := \<lparr>title = ''Taken'', description = [], creator = 1,
                                  status = Public, isEditing = False\<rparr>\<rparr>, bobTree]\<rparr>)"
  by (simp add: update_tree_def updateByTree_def findById_def findNode_def findByRoot_def Let_def sample_defs)

text \<open>
  C2 as stated fails: the stored isEditing flag is not a function of the submitted
  title and nodes alone. Creator 1 resubmits the complete tree 10 (title set, every node
  with content) with the flag set, and the flag is stored as submitted.
\<close>

theorem update_tree_client_flag:
  "map_sum id (isEditing \<circ> info \<circ> fst) (update_tree sampleDb 10 aliceUpload 1) = Inr True
   \<and> (title (dto_tree_info aliceUpload) = [] \<or> validateNodes (dto_root aliceUpload)) = False"
  by (simp add: update_tree_def updateByTree_def findById_def findNode_def findByRoot_def Let_def
      sample_defs)

text \<open>
  C2 (amended): after every successful update the stored tree is the saved one and its
  isEditing flag is true exactly when the submitted flag is true, or the title is unset,
  or some node of the submitted tree has no content. A tree has no title and isEditing
  true immediately after create. So an incomplete tree is always stored as editing, and
  a complete one carries the flag the client submitted.
\<close>

theorem update_tree_isEditing:
  "(\<forall>saved d'. update_tree d i uploadTree userId = Inr (saved, d')
       \<longrightarrow> findById d' i = Some saved
         \<and> isEditing (info saved) =
             (isEditing (dto_tree_info uploadTree)
              \<or> title (dto_tree_info uploadTree) = [] \<or> validateNodes (dto_root uploadTree)))
   \<and> (\<exists>t\<in>set (trees (snd (create st d newId newRootId userId))).
         tree_id t = newId \<and> title (info t) = [] \<and> isEditing (info t))"
proof (intro conjI allI impI)
  fix saved d'
  assume a: "update_tree d i uploadTree userId = Inr (saved, d')"
  then obtain t where t: "findById d i = Some t"
    by (auto simp: update_tree_def split: option.splits)
  then have id: "tree_id t = i"
    by (auto simp: findById_def dest: find_Some_id)
  from a t obtain ns where
    saved: "saved = t\<lparr>info := (if title (dto_tree_info uploadTree) = [] \<or> validateNodes (dto_root uploadTree)
        then (dto_tree_info uploadTree)\<lparr>creator := creator (info t), isEditing := True\<rparr>
        else (dto_tree_info uploadTree)\<lparr>creator := creator (info t)\<rparr>)\<rparr>"
    and d': "d' = d\<lparr>trees := updateOne i (\<lambda>_. saved) (trees d), nodes := ns\<rparr>"
    by (auto simp: update_tree_def Let_def split: if_splits sum.splits)
  from saved show "isEditing (info saved) =
             (isEditing (dto_tree_info uploadTree)
              \<or> title (dto_tree_info uploadTree) = [] \<or> validateNodes (dto_root uploadTree))"
    by auto
  from saved id have "tree_id saved = i" by simp
  with t show "findById d' i = Some saved"
    by (simp add: d' findById_def find_updateOne)
next
  show "\<exists>t\<in>set (trees (snd (create st d newId newRootId userId))).
         tree_id t = newId \<and> title (info t) = [] \<and> isEditing (info t)"
    by (simp add: create_def createRoot_def newVideoTree_def Let_def)
qed

theorem update_tree_isEditing_witness:
  "update_tree sampleDb 10 aliceUpload 1 =
     Inr (aliceTree\<lparr>info := dto_tree_info aliceUpload\<rparr>,
          sampleDb\<lparr>trees := [aliceTree\<lparr>info := dto_tree_info aliceUpload\<rparr>, bobTree]\<rparr>)
   \<and> findById (sampleDb\<lparr>trees := [aliceTree\<lparr>info := dto_tree_info aliceUpload\<rparr>, bobTree]\<rparr>) 10
       = Some (aliceTree\<lparr>info := dto_tree_info aliceUpload\<rparr>)
   \<and> isEditing (info (aliceTree\<lparr>info := dto_tree_info aliceUpload\<rparr>))"
proof -
  have run: "update_tree sampleDb 10 aliceUpload 1 =
     Inr (aliceTree\<lparr>info := dto_tree_info aliceUpload\<rparr>,
          sampleDb\<lparr>trees := [aliceTree\<lparr>info := dto_tree_info aliceUpload\<rparr>, bobTree]\<rparr>)"
    by (simp add: update_tree_def updateByTree_def findById_def findNode_def findByRoot_def Let_def
        sample_defs)
  have flag: "isEditing (dto_tree_info aliceUpload)"
    by (simp add: aliceUpload_def)
  from update_tree_isEditing[of sampleDb 10 aliceUpload 1] run flag show ?thesis
    by simp
qed

text \<open>
  C6: info.creator is set at creation and never reassigned. A successful update stores a
  tree whose creator is the one stored before, whatever the submitted tree carries;
  create stores the caller as creator; updateFavorites and incrementViews leave the whole
  info block as it was.
\<close>

theorem update_tree_creator:
  "(\<forall>t saved d'. findById d i = Some t \<and> update_tree d i uploadTree userId = Inr (saved, d')
       \<longrightarrow> findById d' i = Some saved \<and> creator (info saved) = creator (info t))
   \<and> (\<exists>t\<in>set (trees (snd (create st d newId newRootId userId))).
         tree_id t = newId \<and> creator (info t) = userId)
   \<and> (\<forall>t. findById d i = Some t
       \<longrightarrow> (\<exists>t'. findById (updateFavorites d i userId) i = Some t' \<and> info t' = info t)
         \<and> (\<exists>t'. findById (incrementViews d i) i = Some t' \<and> info t' = info t))"
proof (intro conjI allI impI)
  fix t saved d'
  assume a: "findById d i = Some t \<and> update_tree d i uploadTree userId = Inr (saved, d')"
  then have id: "tree_id t = i"
    by (auto simp: findById_def dest: find_Some_id)
  from a obtain ns where
    saved: "saved = t\<lparr>info := (if title (dto_tree_info uploadTree) = [] \<or> validateNodes (dto_root uploadTree)
        then (dto_tree_info uploadTree)\<lparr>creator := creator (info t), isEditing := True\<rparr>
        else (dto_tree_info uploadTree)\<lparr>creator := creator (info t)\<rparr>)\<rparr>"
    and d': "d' = d\<lparr>trees := updateOne i (\<lambda>_. saved) (trees d), nodes := ns\<rparr>"
    by (auto simp: update_tree_def Let_def split: if_splits sum.splits)
  from saved show "creator (info saved) = creator (info t)"
    by simp
  from saved id have "tree_id saved = i" by simp
  with a show "findById d' i = Some saved"
    by (simp add: d' findById_def find_updateOne)
next
  show "\<exists>t\<in>set (trees (snd (create st d newId newRootId userId))).
         tree_id t = newId \<and> creator (info t) = userId"
    by (simp add: create_def createRoot_def newVideoTree_def Let_def)
next
  fix t
  assume "findById d i = Some t"
  then show "\<exists>t'. findById (updateFavorites d i userId) i = Some t' \<and> info t' = info t"
    by (auto simp: findById_def updateFavorites_def find_updateOne)
next
  fix t
  assume "findById d i = Some t"
  then show "\<exists>t'. findById (incrementViews d i) i = Some t' \<and> info t' = info t"
    by (auto simp: findById_def incrementViews_def find_updateOne)
qed

theorem update_tree_creator_witness:
  "findById sampleDb 10 = Some aliceTree
   \<and> update_tree sampleDb 10 aliceUpload 1 =
       Inr (aliceTree\<lparr>info := dto_tree_info aliceUpload\<rparr>,
            sampleDb\<lparr>trees := [aliceTree\<lparr>info := dto_tree_info aliceUpload\<rparr>, bobTree]\<rparr>)
   \<and> creator (info (aliceTree\<lparr>info := dto_tree_info aliceUpload\<rparr>)) = creator (info aliceTree)"
proof -
  have stored: "findById sampleDb 10 = Some aliceTree"
    by (simp add: findById_def sample_defs)
  have run: "update_tree sampleDb 10 aliceUpload 1 =
     Inr (aliceTree\<lparr>info := dto_tree_info aliceUpload\<rparr>,
          sampleDb\<lparr>trees := [aliceTree\<lparr>info := dto_tree_info aliceUpload\<rparr>, bobTree]\<rparr>)"
    by (simp add: update_tree_def updateByTree_def findById_def findNode_def findByRoot_def Let_def
        sample_defs)
  from update_tree_creator[of sampleDb 10 aliceUpload 1] stored run show ?thesis
    by simp
qed

section \<open>Favorites and views\<close>

text \<open>
  C3: updateFavorites toggles membership of the viewer in the favorites set of an
  existing tree (removed when present, added when absent), and two calls in a row for the
  same viewer give back the original set.
\<close>

theorem updateFavorites_toggle:
  assumes "findById d i = Some t"
  shows "\<exists>t1 t2. findById (updateFavorites d i u) i = Some t1
           \<and> set (favorites (data t1)) =
               (if u \<in> set (favorites (data t)) then set (favorites (data t)) - {u}
                else insert u (set (favorites (data t))))
           \<and> findById (updateFavorites (updateFavorites d i u) i u) i = Some t2
           \<and> set (favorites (data t2)) = set (favorites (data t))"
  using assms
  by (auto simp: findById_def updateFavorites_def find_updateOne set_toggleFavorite)

theorem updateFavorites_toggle_witness:
  "findById sampleDb 10 = Some aliceTree
   \<and> (\<exists>t1 t2. findById (updateFavorites sampleDb 10 2) 10 = Some t1
         \<and> set (favorites (data t1)) = {}
         \<and> findById (updateFavorites (updateFavorites sampleDb 10 2) 10 2) 10 = Some t2
         \<and> set (favorites (data t2)) = {2})"
proof -
  have stored: "findById sampleDb 10 = Some aliceTree"
    by (simp add: findById_def sample_defs)
  from updateFavorites_toggle[OF stored, of 2] stored show ?thesis
    by (simp add: aliceTree_def)
qed

text \<open>
  C9: incrementViews on an existing tree adds exactly one to its views counter, an
  unbounded natural number. Exactly that document of the collection changes; its info,
  favorites, root and id stay, and so do the nodes and the other collections.
\<close>

theorem incrementViews_frame:
  assumes "findById d i = Some t"
  shows "\<exists>ts1 ts2 t'. trees d = ts1 @ t # ts2
           \<and> trees (incrementViews d i) = ts1 @ t' # ts2
           \<and> views (data t') = views (data t) + 1
           \<and> favorites (data t') = favorites (data t)
           \<and> info t' = info t \<and> root t' = root t \<and> tree_id t' = tree_id t
           \<and> nodes (incrementViews d i) = nodes d
           \<and> users (incrementViews d i) = users d
           \<and> histories (incrementViews d i) = histories d"
proof -
  let ?f = "\<lambda>t. t\<lparr>data := (data t)\<lparr>views := views (data t) + 1\<rparr>\<rparr>"
  from assms obtain ts1 ts2 where
    "trees d = ts1 @ t # ts2" "updateOne i ?f (trees d) = ts1 @ ?f t # ts2"
    unfolding findById_def using updateOne_split[of i "trees d" t ?f] by blast
  then show ?thesis
    by (intro exI[of _ ts1] exI[of _ ts2] exI[of _ "?f t"]) (simp add: incrementViews_def)
qed

theorem incrementViews_frame_witness:
  "findById sampleDb 10 = Some aliceTree
   \<and> (\<exists>ts1 ts2 t'. trees sampleDb = ts1 @ aliceTree # ts2
         \<and> trees (incrementViews sampleDb 10) = ts1 @ t' # ts2
         \<and> views (data t') = 4 \<and> favorites (data t') = [2]
         \<and> info t' = info aliceTree \<and> root t' = ''a0'')"
proof -
  have stored: "findById sampleDb 10 = Some aliceTree"
    by (simp add: findById_def sample_defs)
  from incrementViews_frame[OF stored] obtain ts1 ts2 t' where
    "trees sampleDb = ts1 @ aliceTree # ts2" "trees (incrementViews sampleDb 10) = ts1 @ t' # ts2"
    "views (data t') = views (data aliceTree) + 1" "favorites (data t') = favorites (data aliceTree)"
    "info t' = info aliceTree" "root t' = root aliceTree"
    by blast
  then have "trees sampleDb = ts1 @ aliceTree # ts2
         \<and> trees (incrementViews sampleDb 10) = ts1 @ t' # ts2
         \<and> views (data t') = 4 \<and> favorites (data t') = [2]
         \<and> info t' = info aliceTree \<and> root t' = ''a0''"
    by (simp add: aliceTree_def)
  with stored show ?thesis by blast
qed

section \<open>Listing\<close>

lemma length_sortStage: "length (sortStage key ts) = length ts"
  by (simp add: sortStage_def)

lemma set_sortStage: "set (sortStage key ts) = set ts"
  by (simp add: sortStage_def)

lemma find_trees_ok:
  assumes "0 \<le> l * (p - 1)" "0 < l"
  shows "find_trees bs d match srt (Some p) (Some l) userId historyData =
         Inr \<lparr>videos = map (clientPipes d userId (case historyData of None \<Rightarrow> True | Some x \<Rightarrow> x))
                 (take (nat l) (drop (nat (l * (p - 1)))
                    (sortStage (case srt of None \<Rightarrow> (\<lambda>t. int (tree_id t)) | Some k \<Rightarrow> k)
                       (filter (matches bs (case match of None \<Rightarrow> [] | Some x \<Rightarrow> x)) (trees d))))),
              count = length (filter (matches bs (case match of None \<Rightarrow> [] | Some x \<Rightarrow> x)) (trees d))\<rparr>"
proof -
  have skip: "\<not> l * (p - 1) < 0" and limit: "\<not> l \<le> 0"
    using assms by simp_all
  show ?thesis
  proof (cases "filter (matches bs (case match of None \<Rightarrow> [] | Some x \<Rightarrow> x)) (trees d) = []")
    case True
    then show ?thesis
      using skip limit by (simp add: find_trees_def Let_def sortStage_def)
  next
    case False
    then show ?thesis
      using skip limit by (simp add: find_trees_def Let_def)
  qed
qed

text \<open>
  C4: for page p and page size l, both at least 1, find succeeds; count is the number of
  matching trees, whatever the page; the videos are the sorted matching trees after
  skipping l * (p - 1) of them, at most l of them. With 25 matching trees and l = 10,
  page 1 has 10 trees and page 3 the remaining 5.
\<close>

theorem find_trees_pagination:
  fixes bs :: backing_store and d :: db and match :: "match_doc option"
    and srt :: "(video_tree \<Rightarrow> int) option"
  defines "matched \<equiv> filter (matches bs (case match of None \<Rightarrow> [] | Some x \<Rightarrow> x)) (trees d)"
    and "sorted_matched \<equiv>
      sortStage (case srt of None \<Rightarrow> (\<lambda>t. int (tree_id t)) | Some k \<Rightarrow> k)
        (filter (matches bs (case match of None \<Rightarrow> [] | Some x \<Rightarrow> x)) (trees d))"
  assumes "1 \<le> p" and "1 \<le> l"
  shows "\<exists>r. find_trees bs d match srt (Some p) (Some l) userId historyData = Inr r
           \<and> count r = length matched
           \<and> videos r = map (clientPipes d userId (case historyData of None \<Rightarrow> True | Some x \<Rightarrow> x))
                 (take (nat l) (drop (nat l * (nat p - 1)) sorted_matched))
           \<and> length (videos r) = min (nat l) (length matched - nat l * (nat p - 1))
           \<and> length (videos r) \<le> nat l
           \<and> (length matched = 25 \<and> l = 10 \<and> p = 1 \<longrightarrow> length (videos r) = 10)
           \<and> (length matched = 25 \<and> l = 10 \<and> p = 3 \<longrightarrow> length (videos r) = 5)"
proof -
  have nn: "0 \<le> l * (p - 1)" and pos: "0 < l"
    using assms(3,4) by simp_all
  have skip: "nat (l * (p - 1)) = nat l * (nat p - 1)"
    using assms(3,4) by (simp add: nat_mult_distrib nat_diff_distrib)
  show ?thesis
    unfolding find_trees_ok[OF nn pos] skip matched_def sorted_matched_def
    by (auto simp: length_sortStage min.commute)
qed

lemma manyTrees_length: "length (filter (matches plainStore []) (trees manyTrees)) = 25"
  by (simp add: manyTrees_def matches_def)

theorem find_trees_pagination_witness:
  "(1::int) \<le> 3 \<and> (1::int) \<le> 10
   \<and> (\<exists>r. find_trees plainStore manyTrees None None (Some 3) (Some 10) None None = Inr r
         \<and> count r = 25 \<and> length (videos r) = 5)"
proof -
  have p: "(1::int) \<le> 3" and l: "(1::int) \<le> 10" by simp_all
  from find_trees_pagination[OF p l, where bs = plainStore and d = manyTrees and match = None
      and srt = None and userId = None and historyData = None]
  show ?thesis
    by (auto simp: manyTrees_length)
qed



lemma matches_spread_base:
  assumes "matches bs (spread base over) t" and "(k, c) \<in> set base" and "k \<notin> fst ` set over"
  shows "holds bs k c t"
  using assms by (auto simp: matches_def spread_def list_all_iff)

lemma findClient_videos:
  assumes "findClient bs d match srt page mx userId = Inr r" and "v \<in> set (videos r)"
  shows "\<exists>t\<in>set (trees d). client_info v = info t
           \<and> matches bs (spread [(F_info_status, Eq_status Public), (F_info_isEditing, Eq_bool False)]
                (case match of None \<Rightarrow> [] | Some x \<Rightarrow> x)) t"
proof -
  let ?m = "spread [(F_info_status, Eq_status Public), (F_info_isEditing, Eq_bool False)]
              (case match of None \<Rightarrow> [] | Some x \<Rightarrow> x)"
  let ?key = "case srt of None \<Rightarrow> (\<lambda>t. int (tree_id t)) | Some k \<Rightarrow> k"
  from assms(1) have ok: "\<not> mx * (page - 1) < 0" "\<not> mx \<le> 0"
    by (auto simp: findClient_def find_trees_def Let_def split: if_splits)
  then have "0 \<le> mx * (page - 1)" "0 < mx" by simp_all
  from find_trees_ok[OF this, of bs d "Some ?m" srt userId None] assms(1)
  have "videos r = map (clientPipes d userId True)
          (take (nat mx) (drop (nat (mx * (page - 1))) (sortStage ?key (filter (matches bs ?m) (trees d)))))"
    by (auto simp: findClient_def)
  with assms(2) obtain t where
    t: "t \<in> set (take (nat mx) (drop (nat (mx * (page - 1))) (sortStage ?key (filter (matches bs ?m) (trees d)))))"
    and v: "v = clientPipes d userId True t"
    by auto
  from t have "t \<in> set (sortStage ?key (filter (matches bs ?m) (trees d)))"
    by (meson in_set_dropD in_set_takeD)
  then have "t \<in> set (trees d)" "matches bs ?m t"
    by (simp_all add: set_sortStage)
  with v show ?thesis
    by (auto simp: clientPipes_def)
qed

lemma findClient_public:
  assumes "findClient bs d match srt page mx userId = Inr r" and "v \<in> set (videos r)"
    and "F_info_status \<notin> fst ` set (case match of None \<Rightarrow> [] | Some x \<Rightarrow> x)"
    and "F_info_isEditing \<notin> fst ` set (case match of None \<Rightarrow> [] | Some x \<Rightarrow> x)"
  shows "status (client_info v) = Public \<and> \<not> isEditing (client_info v)"
proof -
  from findClient_videos[OF assms(1,2)] obtain t where
    v: "client_info v = info t"
    and m: "matches bs (spread [(F_info_status, Eq_status Public), (F_info_isEditing, Eq_bool False)]
                (case match of None \<Rightarrow> [] | Some x \<Rightarrow> x)) t"
    by blast
  have "holds bs F_info_status (Eq_status Public) t"
    by (rule matches_spread_base[OF m _ assms(3)]) simp
  moreover have "holds bs F_info_isEditing (Eq_bool False) t"
    by (rule matches_spread_base[OF m _ assms(4)]) simp
  ultimately show ?thesis using v by simp
qed

text \<open>
  C7 as stated fails. findClient spreads the caller's match document over its two
  defaults (lines 238-242), so a key of the caller replaces the default of the same
  name: with info.status = private in the match, the private tree 10 is listed. The
  wrappers that spread \<^verbatim>\<open>params\<close> last inherit this: a match carried by
  \<^verbatim>\<open>params\<close> reaches findClient in place of the wrapper's own, here through
  findClientByFeatured.
\<close>

theorem findClient_override:
  "map_sum id (map (status \<circ> client_info) \<circ> videos)
     (findClient plainStore sampleDb (Some [(F_info_status, Eq_status Private)]) None 1 10 None)
   = Inr [Private]
   \<and> map_sum id (map (status \<circ> client_info) \<circ> videos)
     (findClientByFeatured plainStore sampleDb
        (firstPage\<lparr>p_match := Some (Some [(F_info_status, Eq_status Private)])\<rparr>))
   = Inr [Private]"
  by (simp add: findClientByFeatured_def spreadKey_def findClient_def find_trees_def spread_def
      matches_def sortStage_def clientPipes_def plainStore_def Let_def sample_defs)

lemma findClient_spread_public:
  assumes "findClient bs d (spreadKey (Some own) carried) srt page mx userId = Inr r"
    and "v \<in> set (videos r)"
    and "F_info_status \<notin> fst ` set own" and "F_info_isEditing \<notin> fst ` set own"
    and "\<forall>m. carried = Some (Some m)
           \<longrightarrow> F_info_status \<notin> fst ` set m \<and> F_info_isEditing \<notin> fst ` set m"
  shows "status (client_info v) = Public \<and> \<not> isEditing (client_info v)"
proof (rule findClient_public[OF assms(1,2)])
  show "F_info_status \<notin> fst ` set (case spreadKey (Some own) carried of None \<Rightarrow> [] | Some x \<Rightarrow> x)"
    using assms(3,5) by (auto simp: spreadKey_def split: option.splits)
  show "F_info_isEditing \<notin> fst ` set (case spreadKey (Some own) carried of None \<Rightarrow> [] | Some x \<Rightarrow> x)"
    using assms(4,5) by (auto simp: spreadKey_def split: option.splits)
qed

lemma findClient_spread_none_public:
  assumes "findClient bs d (spreadKey None carried) srt page mx userId = Inr r"
    and "v \<in> set (videos r)"
    and "\<forall>m. carried = Some (Some m)
           \<longrightarrow> F_info_status \<notin> fst ` set m \<and> F_info_isEditing \<notin> fst ` set m"
  shows "status (client_info v) = Public \<and> \<not> isEditing (client_info v)"
proof (rule findClient_public[OF assms(1,2)])
  show "F_info_status \<notin> fst ` set (case spreadKey None carried of None \<Rightarrow> [] | Some x \<Rightarrow> x)"
    using assms(3) by (auto simp: spreadKey_def split: option.splits)
  show "F_info_isEditing \<notin> fst ` set (case spreadKey None carried of None \<Rightarrow> [] | Some x \<Rightarrow> x)"
    using assms(3) by (auto simp: spreadKey_def split: option.splits)
qed

text \<open>
  C7 (amended): every tree returned by findClientByIds has status public and isEditing
  false; so has every tree returned by findClient when the caller's match document names
  neither info.status nor info.isEditing, and every tree returned by
  findClientByFeatured, findClientByKeyword, findClientByChannel and
  findClientByFavorites when the params object carries no match document that names one
  of them. findByCreator filters on the creator only: its count is the number of that
  creator's trees, whatever their status.
\<close>

theorem client_listing_public:
  "(\<forall>r v. findClient bs d match srt page mx userId = Inr r \<and> v \<in> set (videos r)
        \<and> F_info_status \<notin> fst ` set (case match of None \<Rightarrow> [] | Some x \<Rightarrow> x)
        \<and> F_info_isEditing \<notin> fst ` set (case match of None \<Rightarrow> [] | Some x \<Rightarrow> x)
      \<longrightarrow> status (client_info v) = Public \<and> \<not> isEditing (client_info v))
   \<and> (\<forall>r v. findClientByFeatured bs d params = Inr r \<and> v \<in> set (videos r)
        \<and> (\<forall>m. p_match params = Some (Some m)
               \<longrightarrow> F_info_status \<notin> fst ` set m \<and> F_info_isEditing \<notin> fst ` set m)
      \<longrightarrow> status (client_info v) = Public \<and> \<not> isEditing (client_info v))
   \<and> (\<forall>r v. findClientByKeyword bs d kparams = Inr r \<and> v \<in> set (videos r)
        \<and> (\<forall>m. p_match kparams = Some (Some m)
               \<longrightarrow> F_info_status \<notin> fst ` set m \<and> F_info_isEditing \<notin> fst ` set m)
      \<longrightarrow> status (client_info v) = Public \<and> \<not> isEditing (client_info v))
   \<and> (\<forall>r v. findClientByChannel bs d cparams = Inr r \<and> v \<in> set (videos r)
        \<and> (\<forall>m. p_match cparams = Some (Some m)
               \<longrightarrow> F_info_status \<notin> fst ` set m \<and> F_info_isEditing \<notin> fst ` set m)
      \<longrightarrow> status (client_info v) = Public \<and> \<not> isEditing (client_info v))
   \<and> (\<forall>r v. findClientByIds bs d ids userId = Inr r \<and> v \<in> set (videos r)
      \<longrightarrow> status (client_info v) = Public \<and> \<not> isEditing (client_info v))
   \<and> (\<forall>r v. findClientByFavorites bs d viewer fparams = Inr r \<and> v \<in> set (videos r)
        \<and> (\<forall>m. p_match fparams = Some (Some m)
               \<longrightarrow> F_info_status \<notin> fst ` set m \<and> F_info_isEditing \<notin> fst ` set m)
      \<longrightarrow> status (client_info v) = Public \<and> \<not> isEditing (client_info v))
   \<and> (\<forall>r. 1 \<le> page \<and> 1 \<le> mx \<and> findByCreator bs d creatorId page mx = Inr r
      \<longrightarrow> count r = length (filter (\<lambda>t. creator (info t) = creatorId) (trees d)))"
proof (intro conjI allI impI)
  fix r v
  assume "findClient bs d match srt page mx userId = Inr r \<and> v \<in> set (videos r)
        \<and> F_info_status \<notin> fst ` set (case match of None \<Rightarrow> [] | Some x \<Rightarrow> x)
        \<and> F_info_isEditing \<notin> fst ` set (case match of None \<Rightarrow> [] | Some x \<Rightarrow> x)"
  then show "status (client_info v) = Public" "\<not> isEditing (client_info v)"
    using findClient_public[of bs d match srt page mx userId r v] by simp_all
next
  fix r v
  assume a: "findClientByFeatured bs d params = Inr r \<and> v \<in> set (videos r)
        \<and> (\<forall>m. p_match params = Some (Some m)
               \<longrightarrow> F_info_status \<notin> fst ` set m \<and> F_info_isEditing \<notin> fst ` set m)"
  have "status (client_info v) = Public \<and> \<not> isEditing (client_info v)"
    by (rule findClient_spread_none_public[of bs d "p_match params"
          "spreadKey (Some (updatedAt bs)) (p_sort params)" "p_page params" "p_max params"
          "spreadKey None (p_userId params)" r v])
      (use a in \<open>simp_all add: findClientByFeatured_def\<close>)
  then show "status (client_info v) = Public" "\<not> isEditing (client_info v)"
    by simp_all
next
  fix r v
  assume a: "findClientByKeyword bs d kparams = Inr r \<and> v \<in> set (videos r)
        \<and> (\<forall>m. p_match kparams = Some (Some m)
               \<longrightarrow> F_info_status \<notin> fst ` set m \<and> F_info_isEditing \<notin> fst ` set m)"
  have "status (client_info v) = Public \<and> \<not> isEditing (client_info v)"
    by (rule findClient_spread_public[of bs d "[(F_text, Search (search kparams))]"
          "p_match kparams" "spreadKey (Some (textScore bs (search kparams))) (p_sort kparams)"
          "p_page kparams" "p_max kparams" "spreadKey None (p_userId kparams)" r v])
      (use a in \<open>simp_all add: findClientByKeyword_def\<close>)
  then show "status (client_info v) = Public" "\<not> isEditing (client_info v)"
    by simp_all
next
  fix r v
  assume a: "findClientByChannel bs d cparams = Inr r \<and> v \<in> set (videos r)
        \<and> (\<forall>m. p_match cparams = Some (Some m)
               \<longrightarrow> F_info_status \<notin> fst ` set m \<and> F_info_isEditing \<notin> fst ` set m)"
  have "status (client_info v) = Public \<and> \<not> isEditing (client_info v)"
    by (rule findClient_spread_public[of bs d "[(F_info_creator, Eq_oid (channelId cparams))]"
          "p_match cparams" "spreadKey None (p_sort cparams)"
          "p_page cparams" "p_max cparams" "spreadKey None (p_userId cparams)" r v])
      (use a in \<open>simp_all add: findClientByChannel_def\<close>)
  then show "status (client_info v) = Public" "\<not> isEditing (client_info v)"
    by simp_all
next
  fix r v
  assume "findClientByIds bs d ids userId = Inr r \<and> v \<in> set (videos r)"
  then show "status (client_info v) = Public" "\<not> isEditing (client_info v)"
    using findClient_public[of bs d "Some [(F_id, In_oids ids)]" None 1 "int (length ids)" userId r v]
    by (simp_all add: findClientByIds_def)
next
  fix r v
  assume a: "findClientByFavorites bs d viewer fparams = Inr r \<and> v \<in> set (videos r)
        \<and> (\<forall>m. p_match fparams = Some (Some m)
               \<longrightarrow> F_info_status \<notin> fst ` set m \<and> F_info_isEditing \<notin> fst ` set m)"
  have "status (client_info v) = Public \<and> \<not> isEditing (client_info v)"
    by (rule findClient_spread_public[of bs d "[(F_expr, In_favorites viewer)]"
          "p_match fparams" "spreadKey None (p_sort fparams)"
          "p_page fparams" "p_max fparams" "spreadKey (Some viewer) (p_userId fparams)" r v])
      (use a in \<open>simp_all add: findClientByFavorites_def\<close>)
  then show "status (client_info v) = Public" "\<not> isEditing (client_info v)"
    by simp_all
next
  fix r
  assume a: "1 \<le> page \<and> 1 \<le> mx \<and> findByCreator bs d creatorId page mx = Inr r"
  then have "0 \<le> mx * (page - 1)" "0 < mx" by simp_all
  moreover have "matches bs [(F_info_creator, Eq_oid creatorId)] = (\<lambda>t. creator (info t) = creatorId)"
    by (rule ext) (simp add: matches_def)
  ultimately show "count r = length (filter (\<lambda>t. creator (info t) = creatorId) (trees d))"
    using find_trees_ok[of mx page bs d "Some [(F_info_creator, Eq_oid creatorId)]" None None "Some False"] a
    by (auto simp: findByCreator_def)
qed

theorem client_listing_public_witness:
  "findClientByChannel plainStore sampleDb (channelOf 2)
     = Inr \<lparr>videos = [clientPipes sampleDb None True bobTree], count = 1\<rparr>
   \<and> findClientByFeatured plainStore sampleDb
        (firstPage\<lparr>p_match := Some (Some [(F_info_creator, Eq_oid 2)])\<rparr>)
     = Inr \<lparr>videos = [clientPipes sampleDb None True bobTree], count = 1\<rparr>
   \<and> status (client_info (clientPipes sampleDb None True bobTree)) = Public
   \<and> \<not> isEditing (client_info (clientPipes sampleDb None True bobTree))
   \<and> findClientByChannel plainStore sampleDb (channelOf 1)
     = Inr \<lparr>videos = [], count = 0\<rparr>
   \<and> findByCreator plainStore sampleDb 1 1 10
     = Inr \<lparr>videos = [clientPipes sampleDb None False aliceTree], count = 1\<rparr>"
proof -
  let ?of2 = "channelOf 2"
  let ?of1 = "channelOf 1"
  let ?carried = "firstPage\<lparr>p_match := Some (Some [(F_info_creator, Eq_oid 2)])\<rparr>"
  have run: "findClientByChannel plainStore sampleDb ?of2
     = Inr \<lparr>videos = [clientPipes sampleDb None True bobTree], count = 1\<rparr>"
    by (simp add: findClientByChannel_def spreadKey_def findClient_def find_trees_def spread_def
        matches_def sortStage_def Let_def sampleDb_def aliceTree_def bobTree_def channelOf_def)
  have featured: "findClientByFeatured plainStore sampleDb ?carried
     = Inr \<lparr>videos = [clientPipes sampleDb None True bobTree], count = 1\<rparr>"
    by (simp add: findClientByFeatured_def spreadKey_def findClient_def find_trees_def spread_def
        matches_def sortStage_def Let_def sampleDb_def aliceTree_def bobTree_def firstPage_def
        plainStore_def)
  have hidden: "findClientByChannel plainStore sampleDb ?of1 = Inr \<lparr>videos = [], count = 0\<rparr>"
    by (simp add: findClientByChannel_def spreadKey_def findClient_def find_trees_def spread_def
        matches_def sortStage_def Let_def sampleDb_def aliceTree_def bobTree_def channelOf_def)
  have own: "findByCreator plainStore sampleDb 1 1 10
     = Inr \<lparr>videos = [clientPipes sampleDb None False aliceTree], count = 1\<rparr>"
    by (simp add: findByCreator_def find_trees_def matches_def
        sortStage_def Let_def sampleDb_def aliceTree_def bobTree_def)
  have free: "\<forall>m. p_match ?of2 = Some (Some m)
      \<longrightarrow> F_info_status \<notin> fst ` set m \<and> F_info_isEditing \<notin> fst ` set m"
    by (simp add: channelOf_def)
  have harmless: "\<forall>m. p_match ?carried = Some (Some m)
      \<longrightarrow> F_info_status \<notin> fst ` set m \<and> F_info_isEditing \<notin> fst ` set m"
    by (simp add: firstPage_def)
  from client_listing_public[where bs = plainStore and d = sampleDb and cparams = ?of2
      and params = ?carried] run featured free harmless
  have "status (client_info (clientPipes sampleDb None True bobTree)) = Public
     \<and> \<not> isEditing (client_info (clientPipes sampleDb None True bobTree))"
    by simp
  with run featured hidden own show ?thesis by simp
qed

section \<open>Reading one tree\<close>

text \<open>
  C5: findClientOne returns a stored tree with status private only when the viewer is
  its creator. The visibility check comes after the tree has been read and built: for
  every private tree that reads back (findOne returns it), findClientOne fails with
  forbidden for every viewer other than the creator, the anonymous viewer included, and
  returns the tree to its creator.
\<close>

theorem findClientOne_private:
  "(\<forall>t r. findById d i = Some t \<and> status (info t) = Private \<and> findClientOne d i userId = Inr r
       \<longrightarrow> userId = Some (creator (info t)) \<and> client_info r = info t)
   \<and> (\<forall>video. findOne d i = Inr video \<and> status (dto_tree_info video) = Private
       \<longrightarrow> (userId \<noteq> Some (creator (dto_tree_info video))
              \<longrightarrow> findClientOne d i userId = Inl (HttpError 403 (Some ''Not authorized to video'')))
         \<and> (userId = Some (creator (dto_tree_info video))
              \<longrightarrow> (\<exists>r. findClientOne d i userId = Inr r \<and> client_id r = dto_tree_id video
                      \<and> client_root r = Some (dto_root video)
                      \<and> client_info r = dto_tree_info video
                      \<and> client_data r = dto_tree_data video)))"
proof (intro conjI allI impI)
  fix t r
  assume a: "findById d i = Some t \<and> status (info t) = Private \<and> findClientOne d i userId = Inr r"
  then have "find (\<lambda>t. tree_id t = i) (trees d) = Some t"
    by (simp add: findById_def)
  then obtain rest where hd: "filter (\<lambda>t. tree_id t = i) (trees d) = t # rest"
    by (blast dest: find_filter_hd)
  from a have run: "findClientOne d i userId = Inr r" and priv: "status (info t) = Private"
    by simp_all
  show "userId = Some (creator (info t))"
  proof (cases "buildTree (allNodesPipe d t)")
    case (Inl e)
    with run show ?thesis by (simp add: findClientOne_def hd)
  next
    case (Inr b)
    with run priv show ?thesis by (simp add: findClientOne_def hd split: if_splits)
  qed
  show "client_info r = info t"
  proof (cases "buildTree (allNodesPipe d t)")
    case (Inl e)
    with run show ?thesis by (simp add: findClientOne_def hd)
  next
    case (Inr b)
    with run priv show ?thesis by (auto simp: findClientOne_def hd split: if_splits)
  qed
next
  fix video
  assume a: "findOne d i = Inr video \<and> status (dto_tree_info video) = Private"
  then obtain t rest b where hd: "filter (\<lambda>t. tree_id t = i) (trees d) = t # rest"
    and built: "buildTree (allNodesPipe d t) = Inr b"
    and video: "video = \<lparr>dto_tree_id = tree_id t, dto_root = b, dto_tree_info = info t,
                         dto_tree_data = data t\<rparr>"
    by (auto simp: findOne_def split: list.splits sum.splits)
  from a video have priv: "status (info t) = Private"
    by simp
  show "findClientOne d i userId = Inl (HttpError 403 (Some ''Not authorized to video''))"
    if "userId \<noteq> Some (creator (dto_tree_info video))"
    using that priv by (auto simp: findClientOne_def hd built video)
  show "\<exists>r. findClientOne d i userId = Inr r \<and> client_id r = dto_tree_id video
                      \<and> client_root r = Some (dto_root video)
                      \<and> client_info r = dto_tree_info video
                      \<and> client_data r = dto_tree_data video"
    if "userId = Some (creator (dto_tree_info video))"
    using that by (simp add: findClientOne_def hd built video)
qed

theorem findClientOne_private_witness:
  "findOne sampleDb 10 = Inr \<lparr>dto_tree_id = 10, dto_root = aliceNested,
       dto_tree_info = info aliceTree, dto_tree_data = data aliceTree\<rparr>
   \<and> status (info aliceTree) = Private
   \<and> findClientOne sampleDb 10 None = Inl (HttpError 403 (Some ''Not authorized to video''))
   \<and> findClientOne sampleDb 10 (Some 2) = Inl (HttpError 403 (Some ''Not authorized to video''))
   \<and> (\<exists>r. findClientOne sampleDb 10 (Some 1) = Inr r \<and> client_root r = Some aliceNested)"
proof -
  let ?video = "\<lparr>dto_tree_id = 10, dto_root = aliceNested,
       dto_tree_info = info aliceTree, dto_tree_data = data aliceTree\<rparr>"
  have stored: "findOne sampleDb 10 = Inr ?video"
    by (simp add: findOne_def allNodesPipe_def buildTree_def findByRoot_def sample_defs)
  have priv: "status (dto_tree_info ?video) = Private"
    by (simp add: aliceTree_def)
  from findClientOne_private[of sampleDb 10 None] findClientOne_private[of sampleDb 10 "Some 2"]
    findClientOne_private[of sampleDb 10 "Some 1"] stored priv
  show ?thesis
    by (auto simp: aliceTree_def)
qed

section \<open>Removing a tree\<close>

lemma reaches_no_children:
  assumes "reaches ns r j" and "\<forall>n\<in>set ns. parentId n \<noteq> Some r"
  shows "j = r"
  using assms by (induction rule: reaches.induct) auto

lemma reaches_split:
  assumes "reaches ns t j"
  shows "reaches (filter (\<lambda>n. parentId n \<noteq> Some i) ns) t j
         \<or> (\<exists>k\<in>set ns. parentId k = Some i
               \<and> reaches (filter (\<lambda>n. parentId n \<noteq> Some i) ns) (node_id k) j)"
  using assms
proof (induction rule: reaches.induct)
  case start
  show ?case by (simp add: reaches.start)
next
  case (step p n)
  show ?case
  proof (cases "parentId n = Some i")
    case True
    with step.hyps(2) show ?thesis
      by (auto intro: reaches.start)
  next
    case False
    with step.hyps(2) have n: "n \<in> set (filter (\<lambda>n. parentId n \<noteq> Some i) ns)"
      by simp
    from step.IH show ?thesis
    proof
      assume "reaches (filter (\<lambda>n. parentId n \<noteq> Some i) ns) t p"
      from reaches.step[OF this n step.hyps(3)] show ?thesis ..
    next
      assume "\<exists>k\<in>set ns. parentId k = Some i
               \<and> reaches (filter (\<lambda>n. parentId n \<noteq> Some i) ns) (node_id k) p"
      then obtain k where k: "k \<in> set ns" "parentId k = Some i"
        and r: "reaches (filter (\<lambda>n. parentId n \<noteq> Some i) ns) (node_id k) p"
        by blast
      from reaches.step[OF r n step.hyps(3)] k show ?thesis by blast
    qed
  qed
qed

lemma descendantIds_complete:
  "t \<in> set todo \<Longrightarrow> reaches ns t j \<Longrightarrow> j \<in> set (descendantIds ns todo)"
proof (induction ns todo arbitrary: t rule: descendantIds.induct)
  case (1 ns)
  then show ?case by simp
next
  case (2 ns i todo)
  let ?rest = "filter (\<lambda>n. parentId n \<noteq> Some i) ns"
  let ?kids = "map node_id (filter (\<lambda>n. parentId n = Some i) ns)"
  from reaches_split[OF "2.prems"(2), of i]
  consider (a) "reaches ?rest t j"
    | (b) k where "k \<in> set ns" "parentId k = Some i" "reaches ?rest (node_id k) j"
    by blast
  then show ?case
  proof cases
    case a
    show ?thesis
    proof (cases "t = i")
      case True
      with a have "j = i"
        by (auto dest: reaches_no_children)
      then show ?thesis by simp
    next
      case False
      with "2.prems"(1) have "t \<in> set (?kids @ todo)" by simp
      from "2.IH"[OF this a] show ?thesis by simp
    qed
  next
    case b
    then have "node_id k \<in> set (?kids @ todo)" by auto
    from "2.IH"[OF this b(3)] show ?thesis by simp
  qed
qed

lemma findNode_None_iff: "findNode ns i = None \<longleftrightarrow> (\<forall>n\<in>set ns. node_id n \<noteq> i)"
  by (auto simp: findNode_def find_None_iff)

lemma deleteByRoot_cascade:
  assumes "deleteByRoot ns r u = Inr ns'" and "reaches ns r j"
  shows "findNode ns' j = None"
proof -
  from assms(2) have "j \<in> set (descendantIds ns [r])"
    by (intro descendantIds_complete[of r]) simp_all
  with assms(1) show ?thesis
    by (auto simp: deleteByRoot_def findNode_None_iff split: if_splits)
qed

lemma findById_filter_None: "findById (d\<lparr>trees := filter (\<lambda>t. tree_id t \<noteq> i) (trees d), nodes := ns\<rparr>) i = None"
  by (simp add: findById_def find_None_iff)

text \<open>
  C8: remove fails with not-found when the tree does not exist and with forbidden when
  the requester is not its creator; the creator who owns the tree's nodes succeeds. The
  nodes are deleted first: an error of the node store is the error of remove, which then
  removes no tree record. After a successful remove the tree is not found, and neither is
  any node of its node set.
\<close>

theorem remove_tree_cascade:
  "(findById d i = None \<longrightarrow> remove_tree d i u = Inl (HttpError 404 (Some ''Video not found'')))
   \<and> (\<forall>t. findById d i = Some t \<and> creator (info t) \<noteq> u
        \<longrightarrow> remove_tree d i u = Inl (HttpError 403 (Some ''Not authorized to remove video'')))
   \<and> (\<forall>t. findById d i = Some t \<and> creator (info t) = u
           \<and> (\<forall>n\<in>set (findByRoot (nodes d) (root t)). node_creator n = u)
        \<longrightarrow> (\<exists>d'. remove_tree d i u = Inr (t, d')))
   \<and> (\<forall>t e. findById d i = Some t \<and> creator (info t) = u
           \<and> deleteByRoot (nodes d) (root t) u = Inl e
        \<longrightarrow> remove_tree d i u = Inl e)
   \<and> (\<forall>t video d'. findById d i = Some t \<and> remove_tree d i u = Inr (video, d')
        \<longrightarrow> findById d' i = None
            \<and> (\<forall>j. reaches (nodes d) (root t) j \<longrightarrow> findNode (nodes d') j = None))"
proof (intro conjI allI impI)
  assume "findById d i = None"
  then show "remove_tree d i u = Inl (HttpError 404 (Some ''Video not found''))"
    by (simp add: remove_tree_def)
next
  fix t
  assume "findById d i = Some t \<and> creator (info t) \<noteq> u"
  then show "remove_tree d i u = Inl (HttpError 403 (Some ''Not authorized to remove video''))"
    by (simp add: remove_tree_def)
next
  fix t
  assume "findById d i = Some t \<and> creator (info t) = u
           \<and> (\<forall>n\<in>set (findByRoot (nodes d) (root t)). node_creator n = u)"
  then show "\<exists>d'. remove_tree d i u = Inr (t, d')"
    by (simp add: remove_tree_def deleteByRoot_def)
next
  fix t e
  assume "findById d i = Some t \<and> creator (info t) = u
           \<and> deleteByRoot (nodes d) (root t) u = Inl e"
  then show "remove_tree d i u = Inl e"
    by (simp add: remove_tree_def)
next
  fix t video d'
  assume a: "findById d i = Some t \<and> remove_tree d i u = Inr (video, d')"
  then obtain ns' where del: "deleteByRoot (nodes d) (root t) u = Inr ns'"
    and d': "d' = d\<lparr>trees := filter (\<lambda>t. tree_id t \<noteq> i) (trees d), nodes := ns'\<rparr>"
    by (auto simp: remove_tree_def split: if_splits sum.splits)
  show "findById d' i = None"
    unfolding d' by (rule findById_filter_None)
  show "findNode (nodes d') j = None" if "reaches (nodes d) (root t) j" for j
    using deleteByRoot_cascade[OF del that] by (simp add: d')
qed

theorem remove_tree_cascade_witness:
  "findById sampleDb 10 = Some aliceTree
   \<and> remove_tree sampleDb 10 1 = Inr (aliceTree, sampleDb\<lparr>trees := [bobTree], nodes := [bobRoot]\<rparr>)
   \<and> reaches (nodes sampleDb) (root aliceTree) ''a1''
   \<and> findById (sampleDb\<lparr>trees := [bobTree], nodes := [bobRoot]\<rparr>) 10 = None
   \<and> findNode (nodes (sampleDb\<lparr>trees := [bobTree], nodes := [bobRoot]\<rparr>)) ''a1'' = None
   \<and> remove_tree sampleDb 10 2 = Inl (HttpError 403 (Some ''Not authorized to remove video''))
   \<and> remove_tree sampleDb 30 1 = Inl (HttpError 404 (Some ''Video not found''))"
proof -
  have stored: "findById sampleDb 10 = Some aliceTree"
    by (simp add: findById_def sample_defs)
  have missing: "findById sampleDb 30 = None"
    by (simp add: findById_def sample_defs)
  have other: "creator (info aliceTree) \<noteq> 2"
    by (simp add: aliceTree_def)
  have run: "remove_tree sampleDb 10 1 = Inr (aliceTree, sampleDb\<lparr>trees := [bobTree], nodes := [bobRoot]\<rparr>)"
    by (simp add: remove_tree_def deleteByRoot_def findById_def findByRoot_def sample_defs)
  have "reaches (nodes sampleDb) ''a0'' (node_id aliceChild)"
    by (rule reaches.step[OF reaches.start]) (simp_all add: sample_defs)
  then have path: "reaches (nodes sampleDb) (root aliceTree) ''a1''"
    by (simp add: aliceTree_def aliceChild_def)
  from remove_tree_cascade[of sampleDb 10 1] stored run path
  have gone: "findById (sampleDb\<lparr>trees := [bobTree], nodes := [bobRoot]\<rparr>) 10 = None
    \<and> findNode (nodes (sampleDb\<lparr>trees := [bobTree], nodes := [bobRoot]\<rparr>)) ''a1'' = None"
    by blast
  from remove_tree_cascade[of sampleDb 10 2] stored other
  have forbidden: "remove_tree sampleDb 10 2 = Inl (HttpError 403 (Some ''Not authorized to remove video''))"
    by blast
  from remove_tree_cascade[of sampleDb 30 1] missing
  have notfound: "remove_tree sampleDb 30 1 = Inl (HttpError 404 (Some ''Video not found''))"
    by blast
  from stored run path gone forbidden notfound show ?thesis by blast
qed

end
